theory Spec2Isabelle
  imports Complex_Main
begin

section \<open>Shared helpers\<close>

text \<open>
  JavaScript's \<open>Number.prototype.toString\<close> on a non-negative integer: its decimal digits.
\<close>

definition digitChar :: "nat \<Rightarrow> char" where
  "digitChar d = ''0123456789'' ! d"

fun showNat :: "nat \<Rightarrow> string" where
  "showNat n = (if n < 10 then [digitChar n] else showNat (n div 10) @ [digitChar (n mod 10)])"

declare showNat.simps [simp del]

definition isDigit :: "char \<Rightarrow> bool" where
  "isDigit c = (c \<in> set ''0123456789'')"

text \<open>
  The value of a decimal digit string, read from the left (the inverse of \<open>showNat\<close>). A
  digit's value is its position among the ten digits.
\<close>

definition digitValue :: "char \<Rightarrow> nat" where
  "digitValue c = length (takeWhile (\<lambda>d. d \<noteq> c) ''0123456789'')"

definition readNat :: "string \<Rightarrow> nat" where
  "readNat s = foldl (\<lambda>acc c. 10 * acc + digitValue c) 0 s"

text \<open>
  Modelled from the spec: the Mongoose models \<open>User\<close>, \<open>EmailVerification\<close> and
  \<open>Document\<close> are not part of the sources at hand. A collection is the list of its
  records in insertion order; \<open>create\<close> appends, \<open>findOne\<close> returns the first record
  that matches (\<open>List.find\<close>), \<open>deleteOne\<close> removes the first record that matches,
  \<open>deleteMany\<close> removes every record that matches, and \<open>save\<close> writes a changed record
  back in its place.
\<close>

fun deleteOne :: "('a \<Rightarrow> bool) \<Rightarrow> 'a list \<Rightarrow> 'a list" where
  "deleteOne P [] = []"
| "deleteOne P (x # xs) = (if P x then xs else x # deleteOne P xs)"


fun saveFirst :: "('a \<Rightarrow> bool) \<Rightarrow> 'a \<Rightarrow> 'a list \<Rightarrow> 'a list" where
  "saveFirst P y [] = []"
| "saveFirst P y (x # xs) = (if P x then y # xs else x # saveFirst P y xs)"


section \<open>The authentication service: \<open>backend/services/authService.js\<close>\<close>

record user =
  u_id :: string
  userId :: string
  name :: string
  email :: string
  mobile :: string
  password :: string
  address :: string
  role :: string
  isEmailVerified :: bool
  lastLogin :: "nat option"
  emailVerificationToken :: "string option"
  emailVerificationExpires :: "nat option"

record emailVerification =
  ev_email :: string
  otp :: string
  verificationId :: string
  expiresAt :: nat

record authState =
  users :: "user list"
  verifications :: "emailVerification list"

text \<open>
  The view of a user that \<open>verifyOtp\<close> and \<open>loginUser\<close> return.
\<close>

record userView =
  v_id :: string
  v_userId :: string
  v_name :: string
  v_email :: string
  v_mobile :: string
  v_role :: string
  v_isEmailVerified :: bool
  v_lastLogin :: "nat option"

record verifyResult =
  vr_message :: string
  vr_token :: string
  vr_user :: userView

record otpResult =
  or_verificationId :: string
  or_email :: string

record userData =
  ud_name :: string
  ud_email :: string
  ud_mobile :: string
  ud_password :: string
  ud_address :: string

record registerResult =
  rr_userId :: string
  rr_email :: string
  rr_mobile :: string
  rr_isEmailVerified :: bool
  rr_verificationId :: "string option"
  rr_tempPassword :: "string option"

text \<open>
  What a call draws from its environment: the identifier the store gives a new user, the
  result of \<open>User.generateUserId()\<close>, the random temporary password and its bcrypt hash, the
  role the schema gives a new user, the 16 random bytes in hexadecimal that become the
  verification identifier, the value of \<open>Math.random()\<close>, and the 32 random bytes of the
  e-mail token.
\<close>

record draws =
  newObjectId :: string
  generatedUserId :: string
  tempPassword :: string
  hashedTempPassword :: string
  defaultRole :: string
  randomVerificationId :: string
  mathRandom :: real
  randomEmailToken :: string

definition viewOf :: "user \<Rightarrow> userView" where
  "viewOf u = \<lparr> v_id = u_id u, v_userId = userId u, v_name = name u, v_email = email u,
     v_mobile = mobile u, v_role = role u, v_isEmailVerified = isEmailVerified u,
     v_lastLogin = lastLogin u \<rparr>"

text \<open>
  \<open>Math.floor(100000 + Math.random() * 900000).toString()\<close>. The random number is a real
  in the model; the arithmetic is exact.
\<close>

definition generateOtp :: "real \<Rightarrow> string" where
  "generateOtp r = showNat (nat \<lfloor>100000 + r * 900000\<rfloor>)"

text \<open>\<open>Date.now() + 15 * 60 * 1000\<close>, in milliseconds.\<close>

definition otpExpiry :: "nat \<Rightarrow> nat" where
  "otpExpiry now = now + 15 * 60 * 1000"

definition newVerification :: "string \<Rightarrow> string \<Rightarrow> real \<Rightarrow> nat \<Rightarrow> emailVerification" where
  "newVerification e vid r now =
     \<lparr> ev_email = e, otp = generateOtp r, verificationId = vid, expiresAt = otpExpiry now \<rparr>"

text \<open>
  \<open>registerUser\<close> of \<open>backend/services/authService.js\<close>. A call returns the new state and
  either the message of the error it throws or its result.
\<close>

definition registerUser ::
  "authState \<Rightarrow> nat \<Rightarrow> draws \<Rightarrow> userData \<Rightarrow> authState \<times> (string + registerResult)" where
  "registerUser st now d ud =
     (case find (\<lambda>u. email u = ud_email ud \<or> mobile u = ud_mobile ud) (users st) of
        Some existingUser \<Rightarrow> (st, Inl ''User already exists with this email or mobile number'')
      | None \<Rightarrow>
          (let u = \<lparr> u_id = newObjectId d, userId = generatedUserId d, name = ud_name ud,
                     email = ud_email ud, mobile = ud_mobile ud,
                     password = hashedTempPassword d, address = ud_address ud,
                     role = defaultRole d, isEmailVerified = False, lastLogin = None,
                     emailVerificationToken = None, emailVerificationExpires = None \<rparr>;
               rec = newVerification (ud_email ud) (randomVerificationId d) (mathRandom d) now
           in (\<lparr> users = users st @ [u], verifications = verifications st @ [rec] \<rparr>,
               Inr \<lparr> rr_userId = userId u, rr_email = email u, rr_mobile = mobile u,
                     rr_isEmailVerified = isEmailVerified u,
                     rr_verificationId = Some (randomVerificationId d),
                     rr_tempPassword = Some (tempPassword d) \<rparr>)))"

text \<open>
  The second copy of the service in the sources (the one that mails a verification link
  instead of a one-time code). Its \<open>registerUser\<close> creates the user, then stores an e-mail
  token valid for 24 hours on it and saves it.
\<close>

definition registerUser_link ::
  "authState \<Rightarrow> nat \<Rightarrow> draws \<Rightarrow> userData \<Rightarrow> authState \<times> (string + registerResult)" where
  "registerUser_link st now d ud =
     (case find (\<lambda>u. email u = ud_email ud \<or> mobile u = ud_mobile ud) (users st) of
        Some existingUser \<Rightarrow> (st, Inl ''User already exists with this email or mobile number'')
      | None \<Rightarrow>
          (let u = \<lparr> u_id = newObjectId d, userId = generatedUserId d, name = ud_name ud,
                     email = ud_email ud, mobile = ud_mobile ud,
                     password = hashedTempPassword d, address = ud_address ud,
                     role = defaultRole d, isEmailVerified = True, lastLogin = None,
                     emailVerificationToken = None, emailVerificationExpires = None \<rparr>;
               u' = u \<lparr> emailVerificationToken := Some (randomEmailToken d),
                        emailVerificationExpires := Some (now + 24 * 60 * 60 * 1000) \<rparr>
           in (\<lparr> users = users st @ [u'], verifications = verifications st \<rparr>,
               Inr \<lparr> rr_userId = userId u', rr_email = email u', rr_mobile = mobile u',
                     rr_isEmailVerified = isEmailVerified u',
                     rr_verificationId = None, rr_tempPassword = None \<rparr>)))"

text \<open>
  \<open>verifyOtp\<close>. The parameter \<open>generateToken\<close> is \<open>jwt.sign\<close> under the configured secret.
\<close>

definition verifyOtp ::
  "(string \<Rightarrow> string) \<Rightarrow> authState \<Rightarrow> nat \<Rightarrow> string \<Rightarrow> string \<Rightarrow> authState \<times> (string + verifyResult)" where
  "verifyOtp generateToken st now vid code =
     (case find (\<lambda>r. verificationId r = vid \<and> expiresAt r > now) (verifications st) of
        None \<Rightarrow> (st, Inl ''Invalid or expired OTP'')
      | Some verificationRecord \<Rightarrow>
          if otp verificationRecord \<noteq> code then (st, Inl ''Invalid OTP'')
          else
            (case find (\<lambda>u. email u = ev_email verificationRecord) (users st) of
               None \<Rightarrow> (st, Inl ''User not found'')
             | Some u \<Rightarrow>
                 (let u' = u \<lparr> isEmailVerified := True, lastLogin := Some now \<rparr>
                  in (\<lparr> users = saveFirst (\<lambda>x. email x = ev_email verificationRecord) u' (users st),
                        verifications = deleteOne (\<lambda>r. verificationId r = vid) (verifications st) \<rparr>,
                      Inr \<lparr> vr_message = ''Email verified successfully'',
                            vr_token = generateToken (u_id u'),
                            vr_user = viewOf u' \<rparr>))))"

definition sendOtp ::
  "authState \<Rightarrow> nat \<Rightarrow> string \<Rightarrow> real \<Rightarrow> string \<Rightarrow> authState \<times> (string + otpResult)" where
  "sendOtp st now vid r e =
     (case find (\<lambda>u. email u = e) (users st) of
        Some existingUser \<Rightarrow> (st, Inl ''User already exists with this email'')
      | None \<Rightarrow>
          (st \<lparr> verifications := verifications st @ [newVerification e vid r now] \<rparr>,
           Inr \<lparr> or_verificationId = vid, or_email = e \<rparr>))"


section \<open>The upload controller: \<open>uploadFiles\<close>\<close>

text \<open>
  A file as multer hands it to the controller, a stored document, the request (with the
  result of \<open>validationResult(req)\<close>, the files, the authenticated user and the text fields of
  the multipart body), and the answer the handler sends.
\<close>

record uploadedFile =
  path :: string
  originalname :: string
  filename :: string
  f_size :: nat

type_synonym json = string

record documentMetadata =
  uploadIP :: string
  userAgent :: "string option"
  checksum :: string
  md_originalId :: string
  customerInfo :: "json option"
  pricingSnapshot :: "json option"
  uploadMetadata :: "json option"

record documentFields =
  doc_userId :: string
  udin :: string
  fileName :: string
  originalName :: string
  fileType :: string
  fileSize :: nat
  filePath :: string
  documentHash :: string
  documentTypeId :: string
  tier :: string
  metadata :: documentMetadata

record document = documentFields +
  d_id :: string
  status :: string
  uploadDate :: nat

record request =
  validationErrors :: "string list"
  files :: "uploadedFile list"
  user_isEmailVerified :: bool
  user_id :: string
  ip :: string
  userAgentHeader :: "string option"
  body :: "string \<Rightarrow> string option"

text \<open>
  The world the controller acts on: the stored documents and the temporary storage, a map
  from a path to the bytes of the file there.
\<close>

record world =
  documents :: "document list"
  tempFiles :: "string \<Rightarrow> string option"

record uploadedEntry =
  ue_id :: string
  ue_udin :: string
  ue_fileName :: string
  ue_fileSize :: nat
  ue_fileType :: string
  ue_documentTypeId :: string
  ue_tier :: string
  ue_uploadDate :: nat
  ue_status :: string
  ue_originalId :: string

record responseData =
  uploadedFiles :: "uploadedEntry list"
  totalUploaded :: nat
  totalRequested :: nat
  errors :: "string list option"

record response =
  statusCode :: nat
  success :: bool
  message :: string
  data :: "responseData option"
  validation :: "string list option"

text \<open>
  The names that the \<open>try\<close> block of \<open>uploadFiles\<close> declares with \<open>const\<close> in the block itself, in
  the order of the source: \<open>errors\<close> for the validation result, \<open>metadata\<close>,
  \<open>uploadedDocuments\<close>, \<open>errors\<close> again for the per-file messages, \<open>response\<close> and
  \<open>statusCode\<close>. No inner block stands between the two declarations of \<open>errors\<close>.
\<close>

definition tryBlockDeclarations :: "string list" where
  "tryBlockDeclarations =
     [''errors'', ''metadata'', ''uploadedDocuments'', ''errors'', ''response'', ''statusCode'']"

text \<open>
  A block that declares a name twice is an early error of the language: the module is
  rejected when it is compiled, before any of its statements runs. The message names the
  first name that is declared again.
\<close>

fun firstRedeclared :: "string list \<Rightarrow> string list \<Rightarrow> string option" where
  "firstRedeclared seen [] = None"
| "firstRedeclared seen (x # xs) =
     (if x \<in> set seen then Some x else firstRedeclared (x # seen) xs)"

definition redeclarationMessage :: "string \<Rightarrow> string" where
  "redeclarationMessage x =
     ''SyntaxError: Identifier '' @ [CHR 0x27] @ x @ [CHR 0x27] @ '' has already been declared''"

definition earlyError :: "string list \<Rightarrow> string option" where
  "earlyError names = map_option redeclarationMessage (firstRedeclared [] names)"

text \<open>
  \<open>require('../controllers/uploadController')\<close>: the error of compiling the module, or the
  handler it exports. The parameter is what the statements of the handler would do with a
  request and a world, could the module be compiled.
\<close>

definition requireUploadController :: "'h \<Rightarrow> string + 'h" where
  "requireUploadController statements =
     (case earlyError tryBlockDeclarations of Some m \<Rightarrow> Inl m | None \<Rightarrow> Inr statements)"

text \<open>
  \<open>uploadFiles\<close> as the sources have it: the world after the request, and either the error
  that keeps the handler from existing (nothing is answered) or the handler's answer.
\<close>

definition uploadFiles ::
  "(request \<Rightarrow> world \<Rightarrow> world \<times> response) \<Rightarrow> request \<Rightarrow> world \<Rightarrow> world \<times> (string + response)" where
  "uploadFiles statements req w =
     (case requireUploadController statements of
        Inl m \<Rightarrow> (w, Inl m)
      | Inr handler \<Rightarrow> (case handler req w of (w', res) \<Rightarrow> (w', Inr res)))"

section \<open>The payment page: prices, line items and the upload list\<close>

text \<open>
  JavaScript numbers are reals in the model, and \<open>Math.round\<close> rounds a half upwards.
\<close>

definition Math_round :: "real \<Rightarrow> real" where
  "Math_round x = of_int \<lfloor>x + 1 / 2\<rfloor>"

text \<open>
  An entry of \<open>DOCUMENT_TYPES\<close>. The table itself (\<open>@shared/pricing\<close>) is a parameter of the
  functions below.
\<close>

record documentType =
  dt_id :: string
  dt_name :: "string option"
  basePrice :: "real option"
  udinRequired :: bool

definition tierMultiplier :: "string option \<Rightarrow> real" where
  "tierMultiplier t =
     (if t = Some ''Express'' then 3 / 2 else if t = Some ''Premium'' then 2 else 1)"

definition findDocumentType :: "documentType list \<Rightarrow> string option \<Rightarrow> documentType option" where
  "findDocumentType types tid =
     (case tid of None \<Rightarrow> None | Some t \<Rightarrow> find (\<lambda>d. dt_id d = t) types)"

text \<open>
  \<open>computeFilePriceINR\<close>: the fallback price when the document type is unknown or its base
  price is missing or zero, the rounded product otherwise.
\<close>

definition computeFilePriceINR ::
  "documentType list \<Rightarrow> string option \<Rightarrow> string option \<Rightarrow> real \<Rightarrow> real" where
  "computeFilePriceINR types tid t fallbackUnitPrice =
     (case findDocumentType types tid of
        None \<Rightarrow> fallbackUnitPrice
      | Some doc \<Rightarrow>
          (case basePrice doc of
             None \<Rightarrow> fallbackUnitPrice
           | Some b \<Rightarrow> if b = 0 then fallbackUnitPrice else Math_round (b * tierMultiplier t)))"

definition unitPrice :: real where
  "unitPrice = 100"

definition taxRate :: real where
  "taxRate = 18 / 100"

text \<open>
  \<open>v || d\<close> on an optional string: an absent or empty string gives way to \<open>d\<close>.
\<close>

definition orString :: "string option \<Rightarrow> string \<Rightarrow> string" where
  "orString v d = (case v of None \<Rightarrow> d | Some s \<Rightarrow> if s = [] then d else s)"

text \<open>
  The parts handed to \<open>stableItemKey\<close>: strings, numbers or \<open>undefined\<close>. \<open>filter(Boolean)\<close>
  drops \<open>undefined\<close>, the empty string and zero; \<open>join\<close> writes the rest with bars between.
\<close>

datatype part = PString string | PNumber nat | PUndefined

fun partTruthy :: "part \<Rightarrow> bool" where
  "partTruthy (PString s) = (s \<noteq> [])"
| "partTruthy (PNumber n) = (n \<noteq> 0)"
| "partTruthy PUndefined = False"

fun partText :: "part \<Rightarrow> string" where
  "partText (PString s) = s"
| "partText (PNumber n) = showNat n"
| "partText PUndefined = []"

fun joinWith :: "string \<Rightarrow> string list \<Rightarrow> string" where
  "joinWith sep [] = []"
| "joinWith sep [x] = x"
| "joinWith sep (x # y # xs) = x @ sep @ joinWith sep (y # xs)"

definition stableItemKey :: "string \<Rightarrow> part list \<Rightarrow> string" where
  "stableItemKey source parts = source @ '':'' @ joinWith ''|'' (map partText (filter partTruthy parts))"

text \<open>
  An entry of \<open>pricingState.currentOrder\<close>, a file of the documents context or of IndexedDB,
  and a row of the order details.
\<close>

record orderItem =
  oi_fileId :: "string option"
  oi_documentTypeId :: "string option"
  oi_fileName :: "string option"
  oi_tier :: "string option"

record clientFile =
  cf_id :: "string option"
  cf_name :: "string option"
  cf_size :: "nat option"
  cf_documentTypeId :: "string option"
  cf_tier :: "string option"

record lineItem =
  li_id :: string
  li_name :: string
  li_subtitle :: "string option"
  li_price :: real
  li_tier :: "string option"
  li_udinRequired :: bool

text \<open>
  The identity of an order item: its file id, or else document type, file name (the index
  when there is none) and tier, with bars between.
\<close>

definition orderIdentity :: "nat \<Rightarrow> orderItem \<Rightarrow> string" where
  "orderIdentity i it =
     orString (oi_fileId it)
       (orString (oi_documentTypeId it) ''doc'' @ ''|'' @ orString (oi_fileName it) (showNat i)
          @ ''|'' @ orString (oi_tier it) ''Standard'')"

definition normalizeOrderItem :: "documentType list \<Rightarrow> nat \<Rightarrow> orderItem \<Rightarrow> lineItem" where
  "normalizeOrderItem types i it =
     (let doc = findDocumentType types (oi_documentTypeId it)
      in \<lparr> li_id = stableItemKey ''order'' [PString (orderIdentity i it)],
           li_name = (case doc of None \<Rightarrow> ''Document''
                      | Some d \<Rightarrow> (case dt_name d of None \<Rightarrow> ''Document'' | Some n \<Rightarrow> n)),
           li_subtitle = oi_fileName it,
           li_price = computeFilePriceINR types (oi_documentTypeId it) (oi_tier it) unitPrice,
           li_tier = oi_tier it,
           li_udinRequired = (case doc of None \<Rightarrow> False | Some d \<Rightarrow> udinRequired d) \<rparr>)"

definition normalizedOrderItems :: "documentType list \<Rightarrow> orderItem list \<Rightarrow> lineItem list" where
  "normalizedOrderItems types itemsFromOrder =
     (if length itemsFromOrder = 0 then []
      else map (\<lambda>(i, it). normalizeOrderItem types i it) (enumerate 0 itemsFromOrder))"

definition fileIdentity :: "nat \<Rightarrow> clientFile \<Rightarrow> part" where
  "fileIdentity i f =
     (case cf_id f of
        Some s \<Rightarrow> if s \<noteq> [] then PString s else
          (case cf_name f of Some n \<Rightarrow> if n \<noteq> [] then PString n else PNumber i | None \<Rightarrow> PNumber i)
      | None \<Rightarrow>
          (case cf_name f of Some n \<Rightarrow> if n \<noteq> [] then PString n else PNumber i | None \<Rightarrow> PNumber i))"

definition fallbackItemFromFile :: "documentType list \<Rightarrow> nat \<Rightarrow> clientFile \<Rightarrow> lineItem" where
  "fallbackItemFromFile types i f =
     (let doc = findDocumentType types (cf_documentTypeId f)
      in \<lparr> li_id = stableItemKey ''file'' [fileIdentity i f],
           li_name = (case (case doc of None \<Rightarrow> None | Some d \<Rightarrow> dt_name d) of
                        Some n \<Rightarrow> n
                      | None \<Rightarrow> (case cf_name f of Some n \<Rightarrow> n | None \<Rightarrow> ''Document'')),
           li_subtitle = cf_name f,
           li_price = computeFilePriceINR types (cf_documentTypeId f) (cf_tier f) unitPrice,
           li_tier = cf_tier f,
           li_udinRequired = (case doc of None \<Rightarrow> False | Some d \<Rightarrow> udinRequired d) \<rparr>)"

definition fallbackItemsFromFiles :: "documentType list \<Rightarrow> clientFile list \<Rightarrow> lineItem list" where
  "fallbackItemsFromFiles types validFilesFromCtx =
     (if length validFilesFromCtx = 0 then []
      else map (\<lambda>(i, f). fallbackItemFromFile types i f) (enumerate 0 validFilesFromCtx))"

definition items :: "documentType list \<Rightarrow> orderItem list \<Rightarrow> clientFile list \<Rightarrow> lineItem list" where
  "items types itemsFromOrder validFilesFromCtx =
     (if length (normalizedOrderItems types itemsFromOrder) > 0
      then normalizedOrderItems types itemsFromOrder
      else fallbackItemsFromFiles types validFilesFromCtx)"

text \<open>
  \<open>pricingState.calculation\<close>: each amount it carries as a number takes precedence over the
  computed one.
\<close>

record calculation =
  calc_subtotal :: "real option"
  calc_gstAmount :: "real option"
  calc_totalAmount :: "real option"

definition subtotal :: "calculation option \<Rightarrow> lineItem list \<Rightarrow> real" where
  "subtotal calc its =
     (case (case calc of None \<Rightarrow> None | Some c \<Rightarrow> calc_subtotal c) of
        Some v \<Rightarrow> v
      | None \<Rightarrow> foldl (\<lambda>s it. s + li_price it) 0 its)"

definition gstAmount :: "calculation option \<Rightarrow> lineItem list \<Rightarrow> real" where
  "gstAmount calc its =
     (case (case calc of None \<Rightarrow> None | Some c \<Rightarrow> calc_gstAmount c) of
        Some v \<Rightarrow> v
      | None \<Rightarrow> Math_round (subtotal calc its * taxRate))"

definition totalAmount :: "calculation option \<Rightarrow> lineItem list \<Rightarrow> real" where
  "totalAmount calc its =
     (case (case calc of None \<Rightarrow> None | Some c \<Rightarrow> calc_totalAmount c) of
        Some v \<Rightarrow> v
      | None \<Rightarrow> subtotal calc its + gstAmount calc its)"

text \<open>
  The list of the upload dialog. \<open>f.id ?? f.name ?? i\<close> gives way only on a missing value; the
  filter keeps the first entry of each identity, with the set \<open>seen\<close> threaded through.
\<close>

record renderEntry =
  renderKey :: string
  identity :: string
  re_name :: "string option"
  re_size :: "nat option"

definition nullishIdentity :: "nat \<Rightarrow> clientFile \<Rightarrow> string" where
  "nullishIdentity i f =
     (case cf_id f of Some s \<Rightarrow> s
      | None \<Rightarrow> (case cf_name f of Some n \<Rightarrow> n | None \<Rightarrow> showNat i))"

definition renderEntries :: "string \<Rightarrow> clientFile list \<Rightarrow> renderEntry list" where
  "renderEntries source fs =
     map (\<lambda>(i, f). \<lparr> renderKey = source @ '':'' @ nullishIdentity i f,
                      identity = nullishIdentity i f, re_name = cf_name f, re_size = cf_size f \<rparr>)
       (enumerate 0 fs)"

fun dedupeFrom :: "string set \<Rightarrow> renderEntry list \<Rightarrow> renderEntry list" where
  "dedupeFrom seen [] = []"
| "dedupeFrom seen (f # fs) =
     (if identity f \<in> seen then dedupeFrom seen fs else f # dedupeFrom (insert (identity f) seen) fs)"

definition dedupe :: "renderEntry list \<Rightarrow> renderEntry list" where
  "dedupe fs = dedupeFrom {} fs"

definition uploadRenderList :: "clientFile list \<Rightarrow> clientFile list \<Rightarrow> renderEntry list" where
  "uploadRenderList validFilesFromCtx indexedFiles =
     dedupe (renderEntries ''ctx'' validFilesFromCtx @ renderEntries ''idb'' indexedFiles)"

section \<open>Sample data\<close>

text \<open>
  Concrete users, records and draws, on which the definitions above are evaluated.
\<close>

definition sampleUser :: user where
  "sampleUser = \<lparr> u_id = ''64f0c1'', userId = ''UDIN0001'', name = ''Asha'', email = ''asha@example.in'',
     mobile = ''9000000001'', password = ''$2a$12$hash'', address = ''Pune'', role = ''user'',
     isEmailVerified = False, lastLogin = None, emailVerificationToken = None,
     emailVerificationExpires = None \<rparr>"

definition sampleRecord :: emailVerification where
  "sampleRecord = \<lparr> ev_email = ''asha@example.in'', otp = ''123456'', verificationId = ''a1b2'',
     expiresAt = 900000 \<rparr>"

definition sampleAuthState :: authState where
  "sampleAuthState = \<lparr> users = [sampleUser], verifications = [sampleRecord] \<rparr>"

definition sampleToken :: "string \<Rightarrow> string" where
  "sampleToken i = ''jwt:'' @ i"

definition sampleNewUser :: user where
  "sampleNewUser = \<lparr> u_id = ''64f0c2'', userId = ''UDIN0002'', name = ''Ravi'', email = ''ravi@example.in'',
     mobile = ''9000000002'', password = ''$2a$12$hash2'', address = ''Kochi'', role = ''user'',
     isEmailVerified = False, lastLogin = None, emailVerificationToken = None,
     emailVerificationExpires = None \<rparr>"

definition sampleDraws :: draws where
  "sampleDraws = \<lparr> newObjectId = ''64f0c2'', generatedUserId = ''UDIN0002'', tempPassword = ''9f8e7d6c5b4a3f2e'',
     hashedTempPassword = ''$2a$12$hash2'', defaultRole = ''user'', randomVerificationId = ''c3d4'',
     mathRandom = 1 / 2, randomEmailToken = ''77aa'' \<rparr>"

definition sampleUserData :: userData where
  "sampleUserData = \<lparr> ud_name = ''Ravi'', ud_email = ''ravi@example.in'', ud_mobile = ''9000000002'',
     ud_password = ''secret'', ud_address = ''Kochi'' \<rparr>"

text \<open>
  One stored document, and a request of two files of which the first has the stored
  document's bytes, from a verified and from an unverified user.
\<close>

definition sampleStored :: document where
  "sampleStored = \<lparr> doc_userId = ''64f0c1'', udin = ''UDIN0'', fileName = ''files-1.pdf'',
     originalName = ''deed.pdf'', fileType = ''pdf'', fileSize = 4, filePath = ''uploads/files-1.pdf'',
     documentHash = ''sha256:AAAA'', documentTypeId = ''sale-deed'', tier = ''Standard'',
     metadata = \<lparr> uploadIP = ''10.0.0.1'', userAgent = None, checksum = ''sha256:AAAA'',
                  md_originalId = '''', customerInfo = None, pricingSnapshot = None,
                  uploadMetadata = None \<rparr>,
     d_id = ''doc0'', status = ''pending'', uploadDate = 1690000000000 \<rparr>"

definition sampleCopy :: uploadedFile where
  "sampleCopy = \<lparr> path = ''uploads/files-2.pdf'', originalname = ''copy.pdf'', filename = ''files-2.pdf'',
     f_size = 4 \<rparr>"

definition sampleFresh :: uploadedFile where
  "sampleFresh = \<lparr> path = ''uploads/files-3.PDF'', originalname = ''will.v2.PDF'', filename = ''files-3.PDF'',
     f_size = 4 \<rparr>"

definition sampleWorld :: world where
  "sampleWorld = \<lparr> documents = [sampleStored],
     tempFiles = [''uploads/files-2.pdf'' \<mapsto> ''AAAA'', ''uploads/files-3.PDF'' \<mapsto> ''BBBB''] \<rparr>"

definition sampleRequest :: request where
  "sampleRequest = \<lparr> validationErrors = [], files = [sampleCopy, sampleFresh],
     user_isEmailVerified = True, user_id = ''64f0c1'', ip = ''10.0.0.7'', userAgentHeader = None,
     body = Map.empty \<rparr>"

definition sampleUnverifiedRequest :: request where
  "sampleUnverifiedRequest = sampleRequest \<lparr> user_isEmailVerified := False \<rparr>"

text \<open>
  A table of document types, an order of two items, the two files behind it, and the first
  of these files as IndexedDB holds it, without an id.
\<close>

definition sampleTypes :: "documentType list" where
  "sampleTypes = [\<lparr> dt_id = ''sale-deed'', dt_name = Some ''Sale Deed'', basePrice = Some 1000,
                     udinRequired = True \<rparr>,
                  \<lparr> dt_id = ''affidavit'', dt_name = Some ''Affidavit'', basePrice = Some 333,
                     udinRequired = False \<rparr>]"

definition sampleOrder :: "orderItem list" where
  "sampleOrder = [\<lparr> oi_fileId = Some ''f-1'', oi_documentTypeId = Some ''sale-deed'',
                     oi_fileName = Some ''deed.pdf'', oi_tier = Some ''Standard'' \<rparr>,
                  \<lparr> oi_fileId = None, oi_documentTypeId = Some ''sale-deed'',
                     oi_fileName = Some ''deed2.pdf'', oi_tier = Some ''Premium'' \<rparr>]"

definition sampleClientFiles :: "clientFile list" where
  "sampleClientFiles = [\<lparr> cf_id = Some ''f-1'', cf_name = Some ''deed.pdf'', cf_size = Some 2048,
                           cf_documentTypeId = Some ''sale-deed'', cf_tier = Some ''Standard'' \<rparr>,
                        \<lparr> cf_id = None, cf_name = Some ''deed2.pdf'', cf_size = None,
                           cf_documentTypeId = Some ''sale-deed'', cf_tier = Some ''Premium'' \<rparr>]"

definition sampleIndexedFile :: clientFile where
  "sampleIndexedFile = \<lparr> cf_id = None, cf_name = Some ''deed.pdf'', cf_size = Some 2048,
     cf_documentTypeId = Some ''sale-deed'', cf_tier = Some ''Standard'' \<rparr>"

section \<open>Properties of the stores and of the decimal digits\<close>

lemma find_saveFirst:
  "find P xs = Some u \<Longrightarrow> P y \<Longrightarrow> find P (saveFirst P y xs) = Some y"
  by (induction xs) (auto split: if_splits)

lemma length_deleteOne:
  "\<exists>x \<in> set xs. P x \<Longrightarrow> length (deleteOne P xs) + 1 = length xs"
  by (induction xs) auto

lemma deleteOne_remove1:
  "distinct (map f xs) \<Longrightarrow> r \<in> set xs \<Longrightarrow> deleteOne (\<lambda>x. f x = f r) xs = remove1 r xs"
  by (induction xs) (auto simp: rev_image_eqI)

lemma remove1_no_key:
  "distinct (map f xs) \<Longrightarrow> r \<in> set xs \<Longrightarrow> x \<in> set (remove1 r xs) \<Longrightarrow> f x \<noteq> f r"
  by (induction xs) (auto simp: rev_image_eqI split: if_splits)

lemma find_later:
  "find (\<lambda>x. verificationId x = vid \<and> now < expiresAt x) xs = Some r
     \<Longrightarrow> now \<le> later \<Longrightarrow> later < expiresAt r
     \<Longrightarrow> find (\<lambda>x. verificationId x = vid \<and> later < expiresAt x) xs = Some r"
  by (induction xs) (auto split: if_splits)

lemma deleteOne_fresh:
  "\<forall>x \<in> set xs. \<not> P x \<Longrightarrow> P y \<Longrightarrow> \<forall>x \<in> set rest. \<not> P x
     \<Longrightarrow> deleteOne P (xs @ y # rest) = xs @ rest"
  by (induction xs) auto


lemma digitChar_isDigit: "k < 10 \<Longrightarrow> isDigit (digitChar k)"
  by (auto simp: eval_nat_numeral less_Suc_eq digitChar_def isDigit_def)

lemma digitValue_digitChar: "k < 10 \<Longrightarrow> digitValue (digitChar k) = k"
  by (auto simp: eval_nat_numeral less_Suc_eq digitChar_def digitValue_def)

lemma showNat_digits: "c \<in> set (showNat n) \<Longrightarrow> isDigit c"
proof (induction n rule: showNat.induct)
  case (1 n)
  show ?case
  proof (cases "n < 10")
    case True
    with "1.prems" show ?thesis by (simp add: showNat.simps [of n] digitChar_isDigit)
  next
    case False
    with "1.prems" have "c \<in> set (showNat (n div 10)) \<or> c = digitChar (n mod 10)"
      by (auto simp: showNat.simps [of n])
    with False "1.IH" digitChar_isDigit [of "n mod 10"] show ?thesis by auto
  qed
qed

lemma readNat_showNat: "readNat (showNat n) = n"
proof (induction n rule: showNat.induct)
  case (1 n)
  show ?case
  proof (cases "n < 10")
    case True
    then show ?thesis by (simp add: showNat.simps [of n] readNat_def digitValue_digitChar)
  next
    case False
    with "1.IH" have "readNat (showNat (n div 10)) = n div 10" by simp
    with False show ?thesis
      by (simp add: showNat.simps [of n] readNat_def digitValue_digitChar)
  qed
qed

lemma length_showNat: "10 ^ k \<le> n \<Longrightarrow> n < 10 ^ Suc k \<Longrightarrow> length (showNat n) = Suc k"
proof (induction k arbitrary: n)
  case 0
  then show ?case by (simp add: showNat.simps [of n])
next
  case (Suc k)
  have "(10::nat) \<le> 10 ^ Suc k" by simp
  with Suc.prems have ge: "\<not> n < 10" by linarith
  from Suc.prems have "10 ^ k \<le> n div 10" "n div 10 < 10 ^ Suc k"
    by (simp_all add: less_mult_imp_div_less mult.commute div_le_mono)
  then have "length (showNat (n div 10)) = Suc k" by (rule Suc.IH)
  with ge show ?case by (simp add: showNat.simps [of n])
qed

lemma otp_range:
  fixes r :: real
  assumes "0 \<le> r" "r < 1"
  shows "100000 \<le> nat \<lfloor>100000 + r * 900000\<rfloor> \<and> nat \<lfloor>100000 + r * 900000\<rfloor> \<le> 999999"
proof -
  have "(100000::real) \<le> 100000 + r * 900000" using assms by simp
  then have lo: "(100000::int) \<le> \<lfloor>100000 + r * 900000\<rfloor>" by linarith
  have "100000 + r * 900000 < (1000000::real)" using assms by simp
  then have hi: "\<lfloor>100000 + r * 900000\<rfloor> < (1000000::int)" by linarith
  from lo hi show ?thesis by linarith
qed

section \<open>Properties of the authentication service\<close>

text \<open>
  Claim C3. \<open>verifyOtp\<close> fails with \<open>Invalid or expired OTP\<close> and leaves the state as it is when
  no record has the identifier and an expiry strictly after the current time; it fails with
  \<open>Invalid OTP\<close>, again without a change, when the record it finds holds another code. When the
  code matches and the user of the record's e-mail exists, the call succeeds: the user is
  saved with the verified flag set, one verification record is removed (the record found, when
  identifiers are distinct, after which no record carries the identifier), and the result
  holds the token signed for the user.
\<close>

theorem verifyOtp_outcomes:
  "(\<not> (\<exists>r \<in> set (verifications st). verificationId r = vid \<and> now < expiresAt r)
      \<longrightarrow> verifyOtp g st now vid code = (st, Inl ''Invalid or expired OTP''))
   \<and> (\<forall>r. find (\<lambda>x. verificationId x = vid \<and> now < expiresAt x) (verifications st) = Some r
            \<and> otp r \<noteq> code
      \<longrightarrow> verifyOtp g st now vid code = (st, Inl ''Invalid OTP''))
   \<and> (\<forall>r u. find (\<lambda>x. verificationId x = vid \<and> now < expiresAt x) (verifications st) = Some r
            \<and> otp r = code
            \<and> find (\<lambda>x. email x = ev_email r) (users st) = Some u
      \<longrightarrow> (\<exists>st' res. verifyOtp g st now vid code = (st', Inr res)
            \<and> find (\<lambda>x. email x = ev_email r) (users st')
                = Some (u\<lparr>isEmailVerified := True, lastLogin := Some now\<rparr>)
            \<and> length (verifications st') + 1 = length (verifications st)
            \<and> (distinct (map verificationId (verifications st))
                 \<longrightarrow> verifications st' = remove1 r (verifications st)
                   \<and> (\<forall>x \<in> set (verifications st'). verificationId x \<noteq> vid))
            \<and> vr_token res = g (u_id u)
            \<and> v_isEmailVerified (vr_user res)))"
proof (intro conjI allI impI)
  assume "\<not> (\<exists>r \<in> set (verifications st). verificationId r = vid \<and> now < expiresAt r)"
  then have "find (\<lambda>x. verificationId x = vid \<and> now < expiresAt x) (verifications st) = None"
    by (simp add: find_None_iff)
  then show "verifyOtp g st now vid code = (st, Inl ''Invalid or expired OTP'')"
    by (simp add: verifyOtp_def)
next
  fix r
  assume "find (\<lambda>x. verificationId x = vid \<and> now < expiresAt x) (verifications st) = Some r
            \<and> otp r \<noteq> code"
  then show "verifyOtp g st now vid code = (st, Inl ''Invalid OTP'')"
    by (simp add: verifyOtp_def)
next
  fix r u
  assume h: "find (\<lambda>x. verificationId x = vid \<and> now < expiresAt x) (verifications st) = Some r
            \<and> otp r = code
            \<and> find (\<lambda>x. email x = ev_email r) (users st) = Some u"
  let ?u = "u\<lparr>isEmailVerified := True, lastLogin := Some now\<rparr>"
  let ?st = "\<lparr> users = saveFirst (\<lambda>x. email x = ev_email r) ?u (users st),
               verifications = deleteOne (\<lambda>x. verificationId x = vid) (verifications st) \<rparr>"
  let ?res = "\<lparr> vr_message = ''Email verified successfully'', vr_token = g (u_id ?u),
                vr_user = viewOf ?u \<rparr>"
  from h have run: "verifyOtp g st now vid code = (?st, Inr ?res)"
    by (simp add: verifyOtp_def Let_def)
  from h have rin: "r \<in> set (verifications st)" and rid: "verificationId r = vid"
    by (auto simp: find_Some_iff)
  from h have ue: "email u = ev_email r"
    by (auto simp: find_Some_iff)
  from h ue have f: "find (\<lambda>x. email x = ev_email r) (users ?st) = Some ?u"
    by (simp add: find_saveFirst)
  from rin rid have len: "length (verifications ?st) + 1 = length (verifications st)"
    using length_deleteOne [of "verifications st" "\<lambda>x. verificationId x = vid"] by auto
  have dis: "distinct (map verificationId (verifications st))
       \<longrightarrow> verifications ?st = remove1 r (verifications st)
         \<and> (\<forall>x \<in> set (verifications ?st). verificationId x \<noteq> vid)"
  proof
    assume d: "distinct (map verificationId (verifications st))"
    from d rin rid have e: "verifications ?st = remove1 r (verifications st)"
      using deleteOne_remove1 [of verificationId "verifications st" r] by simp
    from d rin rid e show "verifications ?st = remove1 r (verifications st)
         \<and> (\<forall>x \<in> set (verifications ?st). verificationId x \<noteq> vid)"
      using remove1_no_key [of verificationId "verifications st" r] by auto
  qed
  from run f len dis show "\<exists>st' res. verifyOtp g st now vid code = (st', Inr res)
            \<and> find (\<lambda>x. email x = ev_email r) (users st')
                = Some (u\<lparr>isEmailVerified := True, lastLogin := Some now\<rparr>)
            \<and> length (verifications st') + 1 = length (verifications st)
            \<and> (distinct (map verificationId (verifications st))
                 \<longrightarrow> verifications st' = remove1 r (verifications st)
                   \<and> (\<forall>x \<in> set (verifications st'). verificationId x \<noteq> vid))
            \<and> vr_token res = g (u_id u)
            \<and> v_isEmailVerified (vr_user res)"
    by (intro exI [of _ ?st] exI [of _ ?res]) (simp add: viewOf_def)
qed

theorem verifyOtp_outcomes_witness:
  "verifyOtp sampleToken sampleAuthState 900000 ''a1b2'' ''123456''
     = (sampleAuthState, Inl ''Invalid or expired OTP'')
   \<and> verifyOtp sampleToken sampleAuthState 5 ''a1b2'' ''000000'' = (sampleAuthState, Inl ''Invalid OTP'')
   \<and> (\<exists>st' res. verifyOtp sampleToken sampleAuthState 5 ''a1b2'' ''123456'' = (st', Inr res)
         \<and> find (\<lambda>x. email x = ''asha@example.in'') (users st')
             = Some (sampleUser\<lparr>isEmailVerified := True, lastLogin := Some 5\<rparr>)
         \<and> verifications st' = []
         \<and> vr_token res = ''jwt:64f0c1'')"
proof -
  have h1: "\<not> (\<exists>r \<in> set (verifications sampleAuthState).
                 verificationId r = ''a1b2'' \<and> 900000 < expiresAt r)"
    by (simp add: sampleAuthState_def sampleRecord_def)
  have f: "find (\<lambda>x. verificationId x = ''a1b2'' \<and> 5 < expiresAt x) (verifications sampleAuthState)
             = Some sampleRecord"
    by (simp add: sampleAuthState_def sampleRecord_def)
  have h2: "otp sampleRecord \<noteq> ''000000''" and h3: "otp sampleRecord = ''123456''"
    by (simp_all add: sampleRecord_def)
  have u: "find (\<lambda>x. email x = ev_email sampleRecord) (users sampleAuthState) = Some sampleUser"
    by (simp add: sampleAuthState_def sampleRecord_def sampleUser_def)
  have d: "distinct (map verificationId (verifications sampleAuthState))"
    by (simp add: sampleAuthState_def)
  have e: "ev_email sampleRecord = ''asha@example.in''" "u_id sampleUser = ''64f0c1''"
    "remove1 sampleRecord (verifications sampleAuthState) = []"
    by (simp_all add: sampleRecord_def sampleUser_def sampleAuthState_def)
  from h1 have c1: "verifyOtp sampleToken sampleAuthState 900000 ''a1b2'' ''123456''
     = (sampleAuthState, Inl ''Invalid or expired OTP'')"
    by (rule verifyOtp_outcomes [where st = sampleAuthState and vid = "''a1b2''" and now = 900000,
          THEN conjunct1, rule_format])
  from f h2 have c2: "verifyOtp sampleToken sampleAuthState 5 ''a1b2'' ''000000''
     = (sampleAuthState, Inl ''Invalid OTP'')"
    using verifyOtp_outcomes [where st = sampleAuthState and vid = "''a1b2''" and now = 5
        and code = "''000000''", THEN conjunct2, THEN conjunct1, rule_format, of sampleRecord]
    by simp
  from f h3 u d have c3: "\<exists>st' res. verifyOtp sampleToken sampleAuthState 5 ''a1b2'' ''123456'' = (st', Inr res)
         \<and> find (\<lambda>x. email x = ev_email sampleRecord) (users st')
             = Some (sampleUser\<lparr>isEmailVerified := True, lastLogin := Some 5\<rparr>)
         \<and> verifications st' = remove1 sampleRecord (verifications sampleAuthState)
         \<and> vr_token res = sampleToken (u_id sampleUser)"
    using verifyOtp_outcomes [where st = sampleAuthState and vid = "''a1b2''" and now = 5
        and code = "''123456''" and g = sampleToken, THEN conjunct2, THEN conjunct2, rule_format,
        of sampleRecord sampleUser]
    by auto
  from c1 c2 c3 show ?thesis by (simp add: e sampleToken_def)
qed

text \<open>
  Claim C10. A call of \<open>verifyOtp\<close> with a wrong code for an unexpired record fails with
  \<open>Invalid OTP\<close> and changes neither the records nor the users, so a later call with the same
  identifier and the record's code, before the expiry, succeeds (for a record whose user
  exists) and marks the user verified.
\<close>

theorem verifyOtp_mismatch_keeps_record:
  assumes found: "find (\<lambda>x. verificationId x = vid \<and> now < expiresAt x) (verifications st) = Some r"
      and wrong: "otp r \<noteq> wrong"
  shows "verifyOtp g st now vid wrong = (st, Inl ''Invalid OTP'')
     \<and> (\<forall>later u. now \<le> later \<and> later < expiresAt r
           \<and> find (\<lambda>x. email x = ev_email r) (users st) = Some u
         \<longrightarrow> (\<exists>st2 res. verifyOtp g (fst (verifyOtp g st now vid wrong)) later vid (otp r)
                          = (st2, Inr res)
                 \<and> v_isEmailVerified (vr_user res)
                 \<and> find (\<lambda>x. email x = ev_email r) (users st2)
                     = Some (u\<lparr>isEmailVerified := True, lastLogin := Some later\<rparr>)))"
proof (intro conjI allI impI)
  from found wrong show first: "verifyOtp g st now vid wrong = (st, Inl ''Invalid OTP'')"
    by (simp add: verifyOtp_def)
  fix later u
  assume h: "now \<le> later \<and> later < expiresAt r
           \<and> find (\<lambda>x. email x = ev_email r) (users st) = Some u"
  then have "now \<le> later" "later < expiresAt r" by simp_all
  with found have f2: "find (\<lambda>x. verificationId x = vid \<and> later < expiresAt x) (verifications st) = Some r"
    by (rule find_later)
  from h have ue: "email u = ev_email r" by (auto simp: find_Some_iff)
  let ?u = "u\<lparr>isEmailVerified := True, lastLogin := Some later\<rparr>"
  from h ue have fs: "find (\<lambda>x. email x = ev_email r)
      (saveFirst (\<lambda>x. email x = ev_email r) ?u (users st)) = Some ?u"
    by (simp add: find_saveFirst)
  from f2 h fs first show "\<exists>st2 res. verifyOtp g (fst (verifyOtp g st now vid wrong)) later vid (otp r)
                          = (st2, Inr res)
                 \<and> v_isEmailVerified (vr_user res)
                 \<and> find (\<lambda>x. email x = ev_email r) (users st2)
                     = Some (u\<lparr>isEmailVerified := True, lastLogin := Some later\<rparr>)"
    by (simp add: verifyOtp_def Let_def viewOf_def)
qed

theorem verifyOtp_mismatch_keeps_record_witness:
  "find (\<lambda>x. verificationId x = ''a1b2'' \<and> 5 < expiresAt x) (verifications sampleAuthState)
       = Some sampleRecord
   \<and> otp sampleRecord \<noteq> ''654321''
   \<and> verifyOtp sampleToken sampleAuthState 5 ''a1b2'' ''654321'' = (sampleAuthState, Inl ''Invalid OTP'')
   \<and> (\<exists>st2 res. verifyOtp sampleToken (fst (verifyOtp sampleToken sampleAuthState 5 ''a1b2'' ''654321''))
                    899999 ''a1b2'' ''123456'' = (st2, Inr res)
          \<and> v_isEmailVerified (vr_user res))"
proof -
  have f: "find (\<lambda>x. verificationId x = ''a1b2'' \<and> 5 < expiresAt x) (verifications sampleAuthState)
             = Some sampleRecord"
    by (simp add: sampleAuthState_def sampleRecord_def)
  have w: "otp sampleRecord \<noteq> ''654321''"
    by (simp add: sampleRecord_def)
  have l: "(5::nat) \<le> 899999 \<and> 899999 < expiresAt sampleRecord
       \<and> find (\<lambda>x. email x = ev_email sampleRecord) (users sampleAuthState) = Some sampleUser"
    by (simp add: sampleAuthState_def sampleRecord_def sampleUser_def)
  have o: "otp sampleRecord = ''123456''" by (simp add: sampleRecord_def)
  note t = verifyOtp_mismatch_keeps_record [OF f w, of sampleToken]
  from t have c1: "verifyOtp sampleToken sampleAuthState 5 ''a1b2'' ''654321''
      = (sampleAuthState, Inl ''Invalid OTP'')"
    by (rule conjunct1)
  from t [THEN conjunct2, rule_format, of 899999 sampleUser] l o
  have c2: "\<exists>st2 res. verifyOtp sampleToken (fst (verifyOtp sampleToken sampleAuthState 5 ''a1b2'' ''654321''))
                    899999 ''a1b2'' ''123456'' = (st2, Inr res)
          \<and> v_isEmailVerified (vr_user res)"
    by auto
  from f w c1 c2 show ?thesis by blast
qed

lemma generateOtp_six_digits:
  fixes r :: real
  assumes "0 \<le> r" "r < 1"
  shows "length (generateOtp r) = 6 \<and> (\<forall>c \<in> set (generateOtp r). isDigit c)
     \<and> 100000 \<le> readNat (generateOtp r) \<and> readNat (generateOtp r) \<le> 999999"
proof -
  let ?n = "nat \<lfloor>100000 + r * 900000\<rfloor>"
  from assms have b: "100000 \<le> ?n \<and> ?n \<le> 999999" by (rule otp_range)
  then have "10 ^ 5 \<le> ?n" "?n < 10 ^ Suc 5" by simp_all
  then have "length (showNat ?n) = Suc 5" by (rule length_showNat)
  with b show ?thesis
    by (simp add: generateOtp_def readNat_showNat showNat_digits)
qed

text \<open>
  Claim C4. \<open>sendOtp\<close> fails when a user with the e-mail exists. Otherwise, for a random number
  in \<open>[0, 1)\<close> and an identifier that no stored record carries, it appends exactly one record:
  for that e-mail, with the drawn identifier, an expiry 15 minutes (900000 ms) after the
  current time and a code of six decimal digits between 100000 and 999999. A successful
  \<open>verifyOtp\<close> for the identifier afterwards (whatever users exist by then) removes that record
  again.
\<close>

theorem sendOtp_contract:
  "((\<exists>u \<in> set (users st). email u = e)
      \<longrightarrow> sendOtp st now vid r e = (st, Inl ''User already exists with this email''))
   \<and> ((\<forall>u \<in> set (users st). email u \<noteq> e) \<and> 0 \<le> r \<and> r < 1
        \<and> vid \<notin> verificationId ` set (verifications st)
      \<longrightarrow> (\<exists>st' rec. sendOtp st now vid r e = (st', Inr \<lparr> or_verificationId = vid, or_email = e \<rparr>)
            \<and> users st' = users st
            \<and> verifications st' = verifications st @ [rec]
            \<and> ev_email rec = e \<and> verificationId rec = vid
            \<and> expiresAt rec = now + 900000
            \<and> length (otp rec) = 6 \<and> (\<forall>c \<in> set (otp rec). isDigit c)
            \<and> 100000 \<le> readNat (otp rec) \<and> readNat (otp rec) \<le> 999999
            \<and> (\<forall>us later code st'' res.
                  verifyOtp g (st'\<lparr>users := us\<rparr>) later vid code = (st'', Inr res)
                  \<longrightarrow> verifications st'' = verifications st)))"
proof (intro conjI impI)
  assume "\<exists>u \<in> set (users st). email u = e"
  then obtain u where "find (\<lambda>u. email u = e) (users st) = Some u"
    by (cases "find (\<lambda>u. email u = e) (users st)") (auto simp: find_None_iff)
  then show "sendOtp st now vid r e = (st, Inl ''User already exists with this email'')"
    by (simp add: sendOtp_def)
next
  assume h: "(\<forall>u \<in> set (users st). email u \<noteq> e) \<and> 0 \<le> r \<and> r < 1
        \<and> vid \<notin> verificationId ` set (verifications st)"
  let ?rec = "newVerification e vid r now"
  let ?st = "st \<lparr> verifications := verifications st @ [?rec] \<rparr>"
  from h have none: "find (\<lambda>u. email u = e) (users st) = None"
    by (simp add: find_None_iff)
  then have run: "sendOtp st now vid r e = (?st, Inr \<lparr> or_verificationId = vid, or_email = e \<rparr>)"
    by (simp add: sendOtp_def)
  from h have six: "length (otp ?rec) = 6 \<and> (\<forall>c \<in> set (otp ?rec). isDigit c)
     \<and> 100000 \<le> readNat (otp ?rec) \<and> readNat (otp ?rec) \<le> 999999"
    using generateOtp_six_digits [of r] by (simp add: newVerification_def)
  have fields: "ev_email ?rec = e \<and> verificationId ?rec = vid \<and> expiresAt ?rec = now + 900000"
    by (simp add: newVerification_def otpExpiry_def)
  from h have fresh: "\<forall>x \<in> set (verifications st). \<not> verificationId x = vid"
    by auto
  have del: "deleteOne (\<lambda>x. verificationId x = vid) (verifications st @ [?rec]) = verifications st"
    using deleteOne_fresh [of "verifications st" "\<lambda>x. verificationId x = vid" ?rec "[]"] fresh fields
    by simp
  have later: "\<forall>us later code st'' res.
       verifyOtp g (?st\<lparr>users := us\<rparr>) later vid code = (st'', Inr res)
       \<longrightarrow> verifications st'' = verifications st"
  proof (intro allI impI)
    fix us later code st'' res
    assume v: "verifyOtp g (?st\<lparr>users := us\<rparr>) later vid code = (st'', Inr res)"
    then show "verifications st'' = verifications st"
      using del
      by (auto simp: verifyOtp_def Let_def split: option.splits if_splits)
  qed
  from run six fields later
  show "\<exists>st' rec. sendOtp st now vid r e = (st', Inr \<lparr> or_verificationId = vid, or_email = e \<rparr>)
            \<and> users st' = users st
            \<and> verifications st' = verifications st @ [rec]
            \<and> ev_email rec = e \<and> verificationId rec = vid
            \<and> expiresAt rec = now + 900000
            \<and> length (otp rec) = 6 \<and> (\<forall>c \<in> set (otp rec). isDigit c)
            \<and> 100000 \<le> readNat (otp rec) \<and> readNat (otp rec) \<le> 999999
            \<and> (\<forall>us later code st'' res.
                  verifyOtp g (st'\<lparr>users := us\<rparr>) later vid code = (st'', Inr res)
                  \<longrightarrow> verifications st'' = verifications st)"
    by (intro exI [of _ ?st] exI [of _ ?rec]) simp
qed

lemma generateOtp_half: "generateOtp (1 / 2) = ''550000''"
  by (simp add: generateOtp_def showNat.simps digitChar_def)

theorem sendOtp_contract_witness:
  "(\<exists>u \<in> set (users sampleAuthState). email u = ''asha@example.in'')
   \<and> sendOtp sampleAuthState 7 ''c3d4'' (1 / 2) ''asha@example.in''
       = (sampleAuthState, Inl ''User already exists with this email'')
   \<and> ''ravi@example.in'' \<notin> email ` set (users sampleAuthState)
   \<and> ''c3d4'' \<notin> verificationId ` set (verifications sampleAuthState)
   \<and> verifications (fst (sendOtp sampleAuthState 7 ''c3d4'' (1 / 2) ''ravi@example.in''))
       = [sampleRecord, \<lparr> ev_email = ''ravi@example.in'', otp = ''550000'', verificationId = ''c3d4'',
                          expiresAt = 900007 \<rparr>]
   \<and> (\<exists>st'' res. verifyOtp sampleToken
          ((fst (sendOtp sampleAuthState 7 ''c3d4'' (1 / 2) ''ravi@example.in''))\<lparr>users := [sampleNewUser]\<rparr>)
          10 ''c3d4'' ''550000'' = (st'', Inr res)
        \<and> verifications st'' = [sampleRecord])"
proof -
  have h1: "\<exists>u \<in> set (users sampleAuthState). email u = ''asha@example.in''"
    by (simp add: sampleAuthState_def sampleUser_def)
  have h2: "(\<forall>u \<in> set (users sampleAuthState). email u \<noteq> ''ravi@example.in'') \<and> (0::real) \<le> 1 / 2
      \<and> (1::real) / 2 < 1 \<and> ''c3d4'' \<notin> verificationId ` set (verifications sampleAuthState)"
    by (simp add: sampleAuthState_def sampleUser_def sampleRecord_def)
  note t = sendOtp_contract [where st = sampleAuthState and now = 7 and vid = "''c3d4''"
      and r = "1 / 2" and g = sampleToken]
  from h1 have c1: "sendOtp sampleAuthState 7 ''c3d4'' (1 / 2) ''asha@example.in''
       = (sampleAuthState, Inl ''User already exists with this email'')"
    by (rule t [THEN conjunct1, rule_format])
  from h2 obtain st' rec where
    run: "sendOtp sampleAuthState 7 ''c3d4'' (1 / 2) ''ravi@example.in''
            = (st', Inr \<lparr> or_verificationId = ''c3d4'', or_email = ''ravi@example.in'' \<rparr>)"
    and vs: "verifications st' = verifications sampleAuthState @ [rec]"
    and del: "\<forall>us later code st'' res.
                  verifyOtp sampleToken (st'\<lparr>users := us\<rparr>) later ''c3d4'' code = (st'', Inr res)
                  \<longrightarrow> verifications st'' = verifications sampleAuthState"
    using t [where e = "''ravi@example.in''", THEN conjunct2, rule_format] by blast
  have c2: "verifications (fst (sendOtp sampleAuthState 7 ''c3d4'' (1 / 2) ''ravi@example.in''))
       = [sampleRecord, \<lparr> ev_email = ''ravi@example.in'', otp = ''550000'', verificationId = ''c3d4'',
                          expiresAt = 900007 \<rparr>]"
    by (simp add: sendOtp_def sampleAuthState_def sampleUser_def newVerification_def
        generateOtp_half otpExpiry_def)
  have ok: "\<exists>st'' res. verifyOtp sampleToken (st'\<lparr>users := [sampleNewUser]\<rparr>) 10 ''c3d4'' ''550000''
      = (st'', Inr res)"
    using run c2
    by (simp add: verifyOtp_def sampleRecord_def sampleNewUser_def Let_def)
  then obtain st'' res where
    v: "verifyOtp sampleToken (st'\<lparr>users := [sampleNewUser]\<rparr>) 10 ''c3d4'' ''550000'' = (st'', Inr res)"
    by blast
  with del have "verifications st'' = verifications sampleAuthState" by blast
  then have "verifications st'' = [sampleRecord]" by (simp add: sampleAuthState_def)
  with v run have c3: "\<exists>st'' res. verifyOtp sampleToken
          ((fst (sendOtp sampleAuthState 7 ''c3d4'' (1 / 2) ''ravi@example.in''))\<lparr>users := [sampleNewUser]\<rparr>)
          10 ''c3d4'' ''550000'' = (st'', Inr res)
        \<and> verifications st'' = [sampleRecord]"
    by auto
  have h3: "''ravi@example.in'' \<notin> email ` set (users sampleAuthState)"
    by (simp add: sampleAuthState_def sampleUser_def)
  from h1 h2 h3 c1 c2 c3 show ?thesis by blast
qed





lemma registerUser_creates_unverified_user:
  "find (\<lambda>u. email u = ud_email ud \<or> mobile u = ud_mobile ud) (users st) = None
     \<Longrightarrow> \<exists>u res. registerUser st now d ud
            = (\<lparr> users = users st @ [u],
                 verifications = verifications st
                   @ [newVerification (ud_email ud) (randomVerificationId d) (mathRandom d) now] \<rparr>,
               Inr res)
          \<and> \<not> isEmailVerified u \<and> email u = ud_email ud \<and> \<not> rr_isEmailVerified res"
  by (simp add: registerUser_def Let_def)

text \<open>
  Claim C7. The second copy of \<open>registerUser\<close> in the sources stores the new user with the
  verified flag already set, where the copy in \<open>backend/services/authService.js\<close> stores it
  unset (lemma \<open>registerUser_creates_unverified_user\<close>).
\<close>

theorem registerUser_link_creates_verified_user:
  "registerUser_link \<lparr> users = [], verifications = [] \<rparr> 0 sampleDraws sampleUserData
     = (\<lparr> users = [sampleNewUser\<lparr>isEmailVerified := True, emailVerificationToken := Some ''77aa'',
                                  emailVerificationExpires := Some 86400000\<rparr>],
          verifications = [] \<rparr>,
        Inr \<lparr> rr_userId = ''UDIN0002'', rr_email = ''ravi@example.in'', rr_mobile = ''9000000002'',
              rr_isEmailVerified = True, rr_verificationId = None, rr_tempPassword = None \<rparr>)"
  by (simp add: registerUser_link_def sampleDraws_def sampleUserData_def sampleNewUser_def)

section \<open>Properties of the upload controller\<close>

lemma uploadController_early_error:
  "earlyError tryBlockDeclarations = Some (redeclarationMessage ''errors'')"
  by (simp add: earlyError_def tryBlockDeclarations_def)

lemma uploadFiles_never_runs:
  "uploadFiles statements req w = (w, Inl (redeclarationMessage ''errors''))"
  by (simp add: uploadFiles_def requireUploadController_def uploadController_early_error)

text \<open>
  Claim C1. The claim has a file whose bytes are stored already removed and reported, and
  the batch answered with 201 or 400. The controller as the sources have it cannot be
  compiled: for a batch of a verified user that holds such a file nothing is answered, the
  temporary file stays, and the stored documents are as before.
\<close>

theorem uploadFiles_duplicate_file_unanswered:
  "user_isEmailVerified sampleRequest
   \<and> files sampleRequest = [sampleCopy, sampleFresh]
   \<and> tempFiles sampleWorld (path sampleCopy) = Some ''AAAA''
   \<and> snd (uploadFiles statements sampleRequest sampleWorld) = Inl (redeclarationMessage ''errors'')
   \<and> tempFiles (fst (uploadFiles statements sampleRequest sampleWorld)) (path sampleCopy) = Some ''AAAA''
   \<and> documents (fst (uploadFiles statements sampleRequest sampleWorld)) = [sampleStored]"
  by (simp add: uploadFiles_never_runs sampleRequest_def sampleWorld_def sampleCopy_def)

text \<open>
  Claim C2. The claim has the handler answer a batch of an unverified user with status 400
  and remove every temporary file. The controller as the sources have it cannot be compiled,
  so for such a batch nothing is answered and both temporary files stay where they are.
\<close>

theorem uploadFiles_unverified_user_unanswered:
  "\<not> user_isEmailVerified sampleUnverifiedRequest
   \<and> files sampleUnverifiedRequest = [sampleCopy, sampleFresh]
   \<and> snd (uploadFiles statements sampleUnverifiedRequest sampleWorld)
       = Inl (redeclarationMessage ''errors'')
   \<and> tempFiles (fst (uploadFiles statements sampleUnverifiedRequest sampleWorld)) (path sampleCopy)
       = Some ''AAAA''
   \<and> tempFiles (fst (uploadFiles statements sampleUnverifiedRequest sampleWorld)) (path sampleFresh)
       = Some ''BBBB''"
  by (simp add: uploadFiles_never_runs sampleUnverifiedRequest_def sampleRequest_def sampleWorld_def
      sampleCopy_def sampleFresh_def)

text \<open>
  Claim C9. The claim has every answer carry totals that add up. The controller as the
  sources have it cannot be compiled: a batch of two files of a verified user that passes
  validation gets no answer at all, so none with totals.
\<close>

theorem uploadFiles_batch_without_totals:
  "user_isEmailVerified sampleRequest
   \<and> validationErrors sampleRequest = []
   \<and> length (files sampleRequest) = 2
   \<and> uploadFiles statements sampleRequest sampleWorld
       = (sampleWorld, Inl (redeclarationMessage ''errors''))
   \<and> (\<forall>res. snd (uploadFiles statements sampleRequest sampleWorld) \<noteq> Inr res)"
  by (simp add: uploadFiles_never_runs sampleRequest_def)

section \<open>Properties of the payment page\<close>

lemma computeFilePriceINR_rounded_product:
  "findDocumentType types tid = Some doc \<Longrightarrow> basePrice doc = Some b \<Longrightarrow> b \<noteq> 0
     \<Longrightarrow> computeFilePriceINR types tid t fb = Math_round (b * tierMultiplier t)"
  by (simp add: computeFilePriceINR_def)

lemma price_1000:
  "findDocumentType types tid = Some doc \<Longrightarrow> basePrice doc = Some 1000
     \<Longrightarrow> computeFilePriceINR types tid (Some ''Standard'') fb = 1000
       \<and> computeFilePriceINR types tid (Some ''Premium'') fb = 2000
       \<and> computeFilePriceINR types tid (Some ''Express'') fb = 1500"
  by (simp add: computeFilePriceINR_def tierMultiplier_def Math_round_def)

lemma gst_3000: "Math_round (3000 * taxRate) = 540"
  by (simp add: Math_round_def taxRate_def)

text \<open>
  Claim C6. The tier multipliers are 1, 1.5 and 2, and the price of an item is the rounded
  product of base price and multiplier. For an order of two items whose document types have
  the base price 1000, the first of tier Standard and the second of tier Premium, and no
  amounts supplied from outside, the prices are 1000 and 2000, the subtotal is 3000, the tax
  is the rounded 18 percent of 3000, that is 540, and the total is 3540.
\<close>

theorem payment_example:
  assumes d1: "findDocumentType types (oi_documentTypeId a) = Some doc1" "basePrice doc1 = Some 1000"
      and d2: "findDocumentType types (oi_documentTypeId b) = Some doc2" "basePrice doc2 = Some 1000"
      and t: "oi_tier a = Some ''Standard''" "oi_tier b = Some ''Premium''"
  shows "tierMultiplier (Some ''Standard'') = 1 \<and> tierMultiplier (Some ''Express'') = 3 / 2
     \<and> tierMultiplier (Some ''Premium'') = 2
     \<and> li_price (normalizeOrderItem types i a) = Math_round (1000 * tierMultiplier (oi_tier a))
     \<and> li_price (normalizeOrderItem types j b) = Math_round (1000 * tierMultiplier (oi_tier b))
     \<and> map li_price (items types [a, b] fs) = [1000, 2000]
     \<and> subtotal None (items types [a, b] fs) = 3000
     \<and> gstAmount None (items types [a, b] fs) = Math_round (3000 * (18 / 100))
     \<and> gstAmount None (items types [a, b] fs) = 540
     \<and> totalAmount None (items types [a, b] fs) = 3540"
proof -
  have pa: "computeFilePriceINR types (oi_documentTypeId a) (oi_tier a) unitPrice = 1000"
    using price_1000 [OF d1] t by simp
  have pb: "computeFilePriceINR types (oi_documentTypeId b) (oi_tier b) unitPrice = 2000"
    using price_1000 [OF d2] t by simp
  have its: "items types [a, b] fs = [normalizeOrderItem types 0 a, normalizeOrderItem types 1 b]"
    by (simp add: items_def normalizedOrderItems_def enumerate_eq_zip upt_rec)
  have prices: "map li_price (items types [a, b] fs) = [1000, 2000]"
    using pa pb by (simp add: its normalizeOrderItem_def Let_def)
  have sub: "subtotal None (items types [a, b] fs) = 3000"
    using pa pb by (simp add: its subtotal_def normalizeOrderItem_def Let_def)
  have gst: "gstAmount None (items types [a, b] fs) = 540"
    using sub gst_3000 by (simp add: gstAmount_def)
  have tot: "totalAmount None (items types [a, b] fs) = 3540"
    using sub gst by (simp add: totalAmount_def)
  have ra: "li_price (normalizeOrderItem types i a) = Math_round (1000 * tierMultiplier (oi_tier a))"
    using d1 by (simp add: normalizeOrderItem_def Let_def computeFilePriceINR_def)
  have rb: "li_price (normalizeOrderItem types j b) = Math_round (1000 * tierMultiplier (oi_tier b))"
    using d2 by (simp add: normalizeOrderItem_def Let_def computeFilePriceINR_def)
  have g2: "Math_round (3000 * (18 / 100)) = (540 :: real)"
    using gst_3000 by (simp add: taxRate_def)
  from prices sub gst tot ra rb g2 show ?thesis
    by (simp add: tierMultiplier_def)
qed

theorem payment_example_witness:
  "findDocumentType sampleTypes (oi_documentTypeId (sampleOrder ! 0)) = Some (sampleTypes ! 0)
   \<and> findDocumentType sampleTypes (oi_documentTypeId (sampleOrder ! 1)) = Some (sampleTypes ! 0)
   \<and> basePrice (sampleTypes ! 0) = Some 1000
   \<and> oi_tier (sampleOrder ! 0) = Some ''Standard'' \<and> oi_tier (sampleOrder ! 1) = Some ''Premium''
   \<and> map li_price (items sampleTypes sampleOrder sampleClientFiles) = [1000, 2000]
   \<and> subtotal None (items sampleTypes sampleOrder sampleClientFiles) = 3000
   \<and> gstAmount None (items sampleTypes sampleOrder sampleClientFiles) = 540
   \<and> totalAmount None (items sampleTypes sampleOrder sampleClientFiles) = 3540"
proof -
  have d1: "findDocumentType sampleTypes (oi_documentTypeId (sampleOrder ! 0)) = Some (sampleTypes ! 0)"
    and d2: "findDocumentType sampleTypes (oi_documentTypeId (sampleOrder ! 1)) = Some (sampleTypes ! 0)"
    and b: "basePrice (sampleTypes ! 0) = Some 1000"
    and t: "oi_tier (sampleOrder ! 0) = Some ''Standard''" "oi_tier (sampleOrder ! 1) = Some ''Premium''"
    by (simp_all add: sampleTypes_def sampleOrder_def findDocumentType_def)
  have o: "sampleOrder = [sampleOrder ! 0, sampleOrder ! 1]"
    by (simp add: sampleOrder_def)
  from payment_example [OF d1 b d2 b t, of 0 1 sampleClientFiles] o d1 d2 b t
  show ?thesis by simp
qed

lemma dedupeFrom_unseen: "x \<in> set (dedupeFrom seen xs) \<Longrightarrow> identity x \<notin> seen"
  by (induction xs arbitrary: seen) (auto split: if_splits)

lemma dedupeFrom_distinct: "distinct (map identity (dedupeFrom seen xs))"
proof (induction xs arbitrary: seen)
  case Nil
  then show ?case by simp
next
  case (Cons a xs)
  have "identity a \<notin> identity ` set (dedupeFrom (insert (identity a) seen) xs)"
  proof
    assume "identity a \<in> identity ` set (dedupeFrom (insert (identity a) seen) xs)"
    then obtain x where x: "x \<in> set (dedupeFrom (insert (identity a) seen) xs)"
      and e: "identity a = identity x"
      by auto
    from x have "identity x \<notin> insert (identity a) seen" by (rule dedupeFrom_unseen)
    with e show False by simp
  qed
  with Cons.IH show ?case by simp
qed

lemma dedupeFrom_fixed:
  "distinct (map identity xs) \<Longrightarrow> \<forall>x \<in> set xs. identity x \<notin> seen \<Longrightarrow> dedupeFrom seen xs = xs"
proof (induction xs arbitrary: seen)
  case Nil
  then show ?case by simp
next
  case (Cons a xs)
  from Cons.prems have d: "distinct (map identity xs)"
    by simp
  have u: "\<forall>x \<in> set xs. identity x \<notin> insert (identity a) seen"
  proof
    fix x
    assume x: "x \<in> set xs"
    from Cons.prems(1) have n: "identity a \<notin> identity ` set xs" by simp
    have "identity x \<noteq> identity a"
    proof
      assume "identity x = identity a"
      then have "identity a = identity x" by (rule sym)
      with x have "identity a \<in> identity ` set xs" by (rule rev_image_eqI)
      with n show False by contradiction
    qed
    moreover from Cons.prems(2) x have "identity x \<notin> seen" by simp
    ultimately show "identity x \<notin> insert (identity a) seen" by simp
  qed
  from Cons.prems have "identity a \<notin> seen" by simp
  with Cons.IH [OF d u] show ?case by simp
qed

lemma dedupeFrom_all_seen: "\<forall>y \<in> set ys. identity y \<in> seen \<Longrightarrow> dedupeFrom seen ys = []"
  by (induction ys) auto

lemma dedupeFrom_append:
  "dedupeFrom seen (xs @ ys) = dedupeFrom seen xs @ dedupeFrom (seen \<union> identity ` set xs) ys"
proof (induction xs arbitrary: seen)
  case Nil
  then show ?case by simp
next
  case (Cons a xs)
  show ?case
  proof (cases "identity a \<in> seen")
    case True
    then have "seen \<union> identity ` set (a # xs) = seen \<union> identity ` set xs" by auto
    with True Cons.IH [of seen] show ?thesis by simp
  next
    case False
    have "seen \<union> identity ` set (a # xs) = insert (identity a) seen \<union> identity ` set xs" by auto
    with False Cons.IH [of "insert (identity a) seen"] show ?thesis by simp
  qed
qed

lemma dedupe_idempotent: "dedupe (dedupe es) = dedupe es"
proof -
  have "distinct (map identity (dedupeFrom {} es))" by (rule dedupeFrom_distinct)
  then have "dedupeFrom {} (dedupeFrom {} es) = dedupeFrom {} es"
    by (rule dedupeFrom_fixed) simp
  then show ?thesis by (simp add: dedupe_def)
qed

lemma renderEntries_identities:
  "map identity (renderEntries source fs) = map (\<lambda>(i, f). nullishIdentity i f) (enumerate 0 fs)"
  by (simp add: renderEntries_def case_prod_unfold)

lemma uploadRenderList_same_sources: "uploadRenderList fs fs = uploadRenderList fs []"
proof -
  have "map identity (renderEntries ''idb'' fs) = map identity (renderEntries ''ctx'' fs)"
    by (simp only: renderEntries_identities)
  then have "identity ` set (renderEntries ''idb'' fs) = identity ` set (renderEntries ''ctx'' fs)"
    by (metis set_map)
  then have "\<forall>y \<in> set (renderEntries ''idb'' fs). identity y \<in> {} \<union> identity ` set (renderEntries ''ctx'' fs)"
    by auto
  then have "dedupeFrom ({} \<union> identity ` set (renderEntries ''ctx'' fs)) (renderEntries ''idb'' fs) = []"
    by (rule dedupeFrom_all_seen)
  then show ?thesis
    by (simp add: uploadRenderList_def dedupe_def dedupeFrom_append renderEntries_def)
qed

lemma orString_nonempty: "d \<noteq> [] \<Longrightarrow> orString v d \<noteq> []"
  by (simp add: orString_def split: option.splits)

lemma order_item_key: "li_id (normalizeOrderItem types i it) = ''order:'' @ orderIdentity i it"
proof -
  have "orderIdentity i it \<noteq> []"
    unfolding orderIdentity_def by (rule orString_nonempty) simp
  then show ?thesis
    by (simp add: normalizeOrderItem_def Let_def stableItemKey_def)
qed

lemma normalizedOrderItems_keys:
  "map li_id (normalizedOrderItems types order)
     = map (\<lambda>(i, it). ''order:'' @ orderIdentity i it) (enumerate 0 order)"
  by (simp add: normalizedOrderItems_def order_item_key case_prod_unfold)

lemma dedupeFrom_identities:
  "seen \<union> identity ` set (dedupeFrom seen xs) = seen \<union> identity ` set xs"
proof (induction xs arbitrary: seen)
  case Nil
  then show ?case by simp
next
  case (Cons a xs)
  show ?case
  proof (cases "identity a \<in> seen")
    case True
    with Cons.IH [of seen] show ?thesis by auto
  next
    case False
    with Cons.IH [of "insert (identity a) seen"] show ?thesis by auto
  qed
qed

lemma uploadRenderList_known_identities:
  assumes "identity ` set (renderEntries ''idb'' idb) \<subseteq> identity ` set (renderEntries ''ctx'' ctx)"
  shows "uploadRenderList ctx idb = uploadRenderList ctx []"
proof -
  from assms
  have "\<forall>y \<in> set (renderEntries ''idb'' idb). identity y \<in> {} \<union> identity ` set (renderEntries ''ctx'' ctx)"
    by auto
  then have "dedupeFrom ({} \<union> identity ` set (renderEntries ''ctx'' ctx)) (renderEntries ''idb'' idb) = []"
    by (rule dedupeFrom_all_seen)
  then show ?thesis
    by (simp add: uploadRenderList_def dedupe_def dedupeFrom_append renderEntries_def)
qed

text \<open>
  Claim C8 as stated fails. The rows of the order details are not de-duplicated: an order
  that lists one item twice gives two rows with one key. And the upload dialog keeps a file
  twice when the context knows it by its id and IndexedDB only by its name.
\<close>

theorem items_not_deduplicated:
  "map li_id (items sampleTypes [sampleOrder ! 0, sampleOrder ! 0] []) = [''order:f-1'', ''order:f-1'']
   \<and> \<not> distinct (map li_id (items sampleTypes [sampleOrder ! 0, sampleOrder ! 0] []))
   \<and> cf_name (sampleClientFiles ! 0) = cf_name sampleIndexedFile
   \<and> map renderKey (uploadRenderList [sampleClientFiles ! 0] [sampleIndexedFile])
       = [''ctx:f-1'', ''idb:deed.pdf'']"
  by (simp add: items_def normalizedOrderItems_def normalizeOrderItem_def Let_def stableItemKey_def
      orderIdentity_def orString_def sampleOrder_def sampleClientFiles_def sampleIndexedFile_def
      uploadRenderList_def dedupe_def renderEntries_def nullishIdentity_def)

text \<open>
  Claim C8, as amended. The rows of a non-empty order are its items, one row each, keyed
  \<open>order:\<close> followed by the item's identity: its file id when it has one, and otherwise
  document type, file name (or index) and tier with bars between. An entry of the upload
  dialog has the id of its file as identity, and as key that id behind the name of its
  source. The list of the upload dialog, merged from the context and IndexedDB and filtered
  by identity (id, else name, else index), holds every identity of the two sources once;
  de-duplicating it once more leaves it as it is, as de-duplicating any de-duplicated list
  does; and when every identity of the IndexedDB files occurs among the context files, as it
  does when both sources hold the same files, the list is that of the context alone.
\<close>

theorem item_keys_and_upload_list:
  "(order \<noteq> []
       \<longrightarrow> items types order fs = normalizedOrderItems types order
         \<and> length (items types order fs) = length order
         \<and> map li_id (items types order fs)
             = map (\<lambda>(i, it). ''order:'' @ orderIdentity i it) (enumerate 0 order))
   \<and> (\<forall>fid. oi_fileId it = Some fid \<and> fid \<noteq> [] \<longrightarrow> orderIdentity i it = fid)
   \<and> (oi_fileId it = None \<or> oi_fileId it = Some []
       \<longrightarrow> orderIdentity i it
           = orString (oi_documentTypeId it) ''doc'' @ ''|''
               @ orString (oi_fileName it) (showNat i) @ ''|'' @ orString (oi_tier it) ''Standard'')
   \<and> (\<forall>s. cf_id f = Some s
       \<longrightarrow> identity (renderEntries source [f] ! 0) = s
         \<and> renderKey (renderEntries source [f] ! 0) = source @ '':'' @ s)
   \<and> distinct (map identity (uploadRenderList ctx idb))
   \<and> identity ` set (uploadRenderList ctx idb)
       = identity ` set (renderEntries ''ctx'' ctx @ renderEntries ''idb'' idb)
   \<and> dedupe (uploadRenderList ctx idb) = uploadRenderList ctx idb
   \<and> dedupe (dedupe es) = dedupe es
   \<and> (identity ` set (renderEntries ''idb'' idb) \<subseteq> identity ` set (renderEntries ''ctx'' ctx)
       \<longrightarrow> uploadRenderList ctx idb = uploadRenderList ctx [])
   \<and> uploadRenderList ctx ctx = uploadRenderList ctx []"
proof (intro conjI allI impI)
  assume ne: "order \<noteq> []"
  have n: "length (normalizedOrderItems types order) = length order"
    by (simp add: normalizedOrderItems_def)
  with ne show its: "items types order fs = normalizedOrderItems types order"
    by (simp add: items_def)
  from its n show "length (items types order fs) = length order" by simp
  from its show "map li_id (items types order fs)
             = map (\<lambda>(i, it). ''order:'' @ orderIdentity i it) (enumerate 0 order)"
    by (simp only: normalizedOrderItems_keys)
next
  fix fid
  assume "oi_fileId it = Some fid \<and> fid \<noteq> []"
  then show "orderIdentity i it = fid"
    by (simp add: orderIdentity_def orString_def)
next
  assume "oi_fileId it = None \<or> oi_fileId it = Some []"
  then show "orderIdentity i it
           = orString (oi_documentTypeId it) ''doc'' @ ''|''
               @ orString (oi_fileName it) (showNat i) @ ''|'' @ orString (oi_tier it) ''Standard''"
    by (auto simp: orderIdentity_def orString_def)
next
  fix s
  assume "cf_id f = Some s"
  then show "identity (renderEntries source [f] ! 0) = s"
    "renderKey (renderEntries source [f] ! 0) = source @ '':'' @ s"
    by (simp_all add: renderEntries_def nullishIdentity_def enumerate_eq_zip)
next
  show "distinct (map identity (uploadRenderList ctx idb))"
    by (simp add: uploadRenderList_def dedupe_def dedupeFrom_distinct)
next
  show "identity ` set (uploadRenderList ctx idb)
       = identity ` set (renderEntries ''ctx'' ctx @ renderEntries ''idb'' idb)"
    using dedupeFrom_identities [of "{}" "renderEntries ''ctx'' ctx @ renderEntries ''idb'' idb"]
    by (simp add: uploadRenderList_def dedupe_def)
next
  show "dedupe (uploadRenderList ctx idb) = uploadRenderList ctx idb"
    by (simp add: uploadRenderList_def dedupe_idempotent)
next
  show "dedupe (dedupe es) = dedupe es" by (rule dedupe_idempotent)
next
  assume "identity ` set (renderEntries ''idb'' idb) \<subseteq> identity ` set (renderEntries ''ctx'' ctx)"
  then show "uploadRenderList ctx idb = uploadRenderList ctx []"
    by (rule uploadRenderList_known_identities)
next
  show "uploadRenderList ctx ctx = uploadRenderList ctx []" by (rule uploadRenderList_same_sources)
qed

theorem item_keys_and_upload_list_witness:
  "sampleOrder \<noteq> []
   \<and> map li_id (items sampleTypes sampleOrder sampleClientFiles)
       = [''order:f-1'', ''order:sale-deed|deed2.pdf|Premium'']
   \<and> oi_fileId (sampleOrder ! 0) = Some ''f-1''
   \<and> orderIdentity 0 (sampleOrder ! 0) = ''f-1''
   \<and> oi_fileId (sampleOrder ! 1) = None
   \<and> orderIdentity 1 (sampleOrder ! 1) = ''sale-deed|deed2.pdf|Premium''
   \<and> cf_id (sampleClientFiles ! 0) = Some ''f-1''
   \<and> renderKey (renderEntries ''ctx'' [sampleClientFiles ! 0] ! 0) = ''ctx:f-1''
   \<and> identity ` set (renderEntries ''idb'' sampleClientFiles)
       \<subseteq> identity ` set (renderEntries ''ctx'' sampleClientFiles)
   \<and> map renderKey (uploadRenderList sampleClientFiles sampleClientFiles) = [''ctx:f-1'', ''ctx:deed2.pdf'']
   \<and> dedupe (uploadRenderList sampleClientFiles sampleClientFiles)
       = uploadRenderList sampleClientFiles sampleClientFiles"
proof -
  have ne: "sampleOrder \<noteq> []" by (simp add: sampleOrder_def)
  have h1: "oi_fileId (sampleOrder ! 0) = Some ''f-1'' \<and> ''f-1'' \<noteq> []"
    and h2: "oi_fileId (sampleOrder ! 1) = None \<or> oi_fileId (sampleOrder ! 1) = Some []"
    and n: "oi_fileId (sampleOrder ! 1) = None"
    and h3: "cf_id (sampleClientFiles ! 0) = Some ''f-1''"
    by (simp_all add: sampleOrder_def sampleClientFiles_def)
  have sub: "identity ` set (renderEntries ''idb'' sampleClientFiles)
       \<subseteq> identity ` set (renderEntries ''ctx'' sampleClientFiles)"
    by (simp add: renderEntries_def sampleClientFiles_def nullishIdentity_def)
  note t0 = item_keys_and_upload_list [where order = sampleOrder and types = sampleTypes
      and fs = sampleClientFiles and it = "sampleOrder ! 0" and i = 0 and f = "sampleClientFiles ! 0"
      and source = "''ctx''" and ctx = sampleClientFiles and idb = sampleClientFiles]
  note t1 = item_keys_and_upload_list [where it = "sampleOrder ! 1" and i = 1]
  from t0 [THEN conjunct1, rule_format, OF ne]
  have "map li_id (items sampleTypes sampleOrder sampleClientFiles)
      = map (\<lambda>(i, it). ''order:'' @ orderIdentity i it) (enumerate 0 sampleOrder)"
    by blast
  then have c0: "map li_id (items sampleTypes sampleOrder sampleClientFiles)
       = [''order:f-1'', ''order:sale-deed|deed2.pdf|Premium'']"
    by (simp add: sampleOrder_def orderIdentity_def orString_def)
  from t0 [THEN conjunct2, THEN conjunct1, rule_format, OF h1]
  have c1: "orderIdentity 0 (sampleOrder ! 0) = ''f-1''" .
  from t1 [THEN conjunct2, THEN conjunct2, THEN conjunct1, rule_format, OF h2]
  have c2: "orderIdentity 1 (sampleOrder ! 1) = ''sale-deed|deed2.pdf|Premium''"
    by (simp add: sampleOrder_def orString_def)
  from t0 [THEN conjunct2, THEN conjunct2, THEN conjunct2, THEN conjunct1, rule_format, OF h3]
  have c3: "renderKey (renderEntries ''ctx'' [sampleClientFiles ! 0] ! 0) = ''ctx:f-1''"
    by simp
  from t0 have c4: "dedupe (uploadRenderList sampleClientFiles sampleClientFiles)
       = uploadRenderList sampleClientFiles sampleClientFiles"
    by blast
  from t0 sub have "uploadRenderList sampleClientFiles sampleClientFiles = uploadRenderList sampleClientFiles []"
    by blast
  then have c5: "map renderKey (uploadRenderList sampleClientFiles sampleClientFiles)
      = [''ctx:f-1'', ''ctx:deed2.pdf'']"
    by (simp add: uploadRenderList_def dedupe_def renderEntries_def sampleClientFiles_def
        nullishIdentity_def enumerate_eq_zip upt_rec)
  from ne c0 h1 c1 n c2 h3 c3 sub c5 c4 show ?thesis by simp
qed

end
